theory Spec2Isabelle
  imports Complex_Main "HOL-Library.AList" "HOL-Library.DAList" "HOL-Library.Extended_Nat"
begin

section \<open>Shallow embedding of \<open>simpy/Stats.py\<close>\<close>

text \<open>
  Timestamps are the values of the simulation clock \<open>env.now\<close>: Python numbers, integers
  or floats, compared with \<open>==\<close> across both (\<open>5 == 5.0\<close>, with equal hashes). They are
  modelled as \<^typ>\<open>real\<close>. Queue lengths are Python integers (\<^typ>\<open>int\<close>). The clock and the
  waiting line \<open>self.queue\<close> belong to the scheduling engine; the functions below take the
  current time and the current waiting line as arguments.
\<close>

subsection \<open>Errors\<close>

datatype py_error =
    Exception string
  | KeyError string
  | TypeError
  | AttributeError

subsection \<open>\<open>ResourceStatsMixin\<close>\<close>

type_synonym queue_event = "real \<times> int \<times> string"

record resource =
  res_name :: string
  queue_size :: "queue_event list"

text \<open>\<open>request\<close>: after the engine's own \<open>request\<close> has run, the observed length of the
  waiting line is appended with the kind \<open>'request'\<close>.\<close>

definition request :: "resource \<Rightarrow> real \<Rightarrow> 'q list \<Rightarrow> resource" where
  "request r now queue =
     r\<lparr>queue_size := queue_size r @ [(now, int (length queue), ''request'')]\<rparr>"

definition add_queue_check :: "resource \<Rightarrow> real \<Rightarrow> 'q list \<Rightarrow> resource" where
  "add_queue_check r now queue =
     r\<lparr>queue_size := queue_size r @ [(now, int (length queue), ''start'')]\<rparr>"

text \<open>The first loop of \<open>queue_size_over_time\<close>: the dictionary \<open>d\<close> from a timestamp to
  the \<open>(size, status)\<close> pairs recorded at it, in recording order.\<close>

fun group_events ::
  "queue_event list \<Rightarrow> (real \<rightharpoonup> (int \<times> string) list) \<Rightarrow> (real \<rightharpoonup> (int \<times> string) list)"
where
  "group_events [] d = d"
| "group_events ((time, sz, status) # rest) d =
     group_events rest
       (case d time of
          Some l \<Rightarrow> d(time \<mapsto> l @ [(sz, status)])
        | None \<Rightarrow> d(time \<mapsto> [(sz, status)]))"

text \<open>The innermost loop: \<open>biggest_size_of_activity\<close> over the pairs of one timestamp.\<close>

fun biggest_size :: "(int \<times> string) list \<Rightarrow> int \<Rightarrow> int" where
  "biggest_size [] biggest = biggest"
| "biggest_size ((sz, status) # rest) biggest =
     biggest_size rest (if sz > biggest then sz else biggest)"

text \<open>One pass of the body of \<open>for i in range(int(self.env.now))\<close>: the new
  \<open>current_queue_size\<close>.\<close>

definition tick_update :: "(real \<rightharpoonup> (int \<times> string) list) \<Rightarrow> int \<Rightarrow> nat \<Rightarrow> int" where
  "tick_update d current_queue_size i =
     (case d (real i) of
        Some evs \<Rightarrow> biggest_size evs 0
      | None \<Rightarrow> current_queue_size)"

fun series_loop ::
  "(real \<rightharpoonup> (int \<times> string) list) \<Rightarrow> nat list \<Rightarrow> int \<Rightarrow> int list \<Rightarrow> int list"
where
  "series_loop d [] current_queue_size queue_over_time = queue_over_time"
| "series_loop d (i # ticks) current_queue_size queue_over_time =
     (let current_queue_size' = tick_update d current_queue_size i
      in series_loop d ticks current_queue_size' (queue_over_time @ [current_queue_size']))"

text \<open>Python's \<open>int(x)\<close> on a number truncates towards zero.\<close>

definition py_int :: "real \<Rightarrow> int" where
  "py_int x = (if 0 \<le> x then \<lfloor>x\<rfloor> else \<lceil>x\<rceil>)"

text \<open>\<open>range(n)\<close> is empty for \<open>n \<le> 0\<close>.\<close>

definition py_range :: "int \<Rightarrow> nat list" where
  "py_range n = [0..<nat n]"

definition queue_size_over_time :: "queue_event list \<Rightarrow> real \<Rightarrow> int list" where
  "queue_size_over_time qs now =
     series_loop (group_events qs Map.empty) (py_range (py_int now)) 0 []"

text \<open>Reading the event log: the observed lengths recorded at exactly the timestamp \<open>t\<close>.\<close>

definition sizes_at :: "queue_event list \<Rightarrow> real \<Rightarrow> int list" where
  "sizes_at qs t = map (\<lambda>(time, sz, status). sz) (filter (\<lambda>(time, sz, status). time = t) qs)"

subsection \<open>\<open>Entity\<close>\<close>

text \<open>The dictionary of \<open>_empty_resource_tracking_dict\<close>: three fixed keys, all \<open>0\<close>.\<close>

record visit =
  arrival_time :: real
  start_service_time :: real
  finish_service_time :: real

definition empty_resource_tracking_dict :: visit where
  "empty_resource_tracking_dict =
     \<lparr>arrival_time = 0, start_service_time = 0, finish_service_time = 0\<rparr>"

text \<open>
  An entity. \<open>resources_requested\<close> is an \<open>OrderedDict\<close>: keys are unique, an assignment
  to a present key keeps its position, an assignment to a new key goes to the end; this is
  the type of association lists with distinct keys and its \<open>update\<close>. The constructor
  sets \<open>creation_time\<close> and \<open>disposal_time\<close> to \<open>None\<close>. The attributes \<open>name\<close>,
  \<open>total_time\<close>, \<open>waiting_time\<close> and \<open>processing_time\<close> do not exist until they are
  assigned (\<open>None\<close> here): \<open>name\<close> by the source or the model, the other three by
  \<open>_calculate_statistics\<close>. The attribute dictionary only feeds the priority handed to
  the engine and is left out.
\<close>

record entity =
  name :: "string option"
  creation_time :: "real option"
  disposal_time :: "real option"
  resources_requested :: "(string, visit) alist"
  total_time :: "real option"
  waiting_time :: "real option"
  processing_time :: "real option"

definition is_disposed :: "entity \<Rightarrow> bool" where
  "is_disposed e = (disposal_time e \<noteq> None)"

text \<open>The private methods lose their leading underscore.\<close>

definition calculate_waiting_time_for_resource :: "entity \<Rightarrow> string \<Rightarrow> py_error + real" where
  "calculate_waiting_time_for_resource e resource_name =
     (case DAList.lookup (resources_requested e) resource_name of
        None \<Rightarrow> Inl (KeyError resource_name)
      | Some resource_stats \<Rightarrow>
          Inr (start_service_time resource_stats - arrival_time resource_stats))"

definition calculate_processing_time_for_resource :: "entity \<Rightarrow> string \<Rightarrow> py_error + real" where
  "calculate_processing_time_for_resource e resource_name =
     (case DAList.lookup (resources_requested e) resource_name of
        None \<Rightarrow> Inl (KeyError resource_name)
      | Some resource_stats \<Rightarrow>
          Inr (finish_service_time resource_stats - start_service_time resource_stats))"

text \<open>The loop of \<open>_calculate_statistics\<close> over \<open>resources_requested.items()\<close>, with the
  two running sums.\<close>

fun statistics_loop ::
  "entity \<Rightarrow> (string \<times> visit) list \<Rightarrow> real \<Rightarrow> real \<Rightarrow> py_error + real \<times> real"
where
  "statistics_loop e [] waiting processing = Inr (waiting, processing)"
| "statistics_loop e ((resource_name, _) # rest) waiting processing =
     (case calculate_waiting_time_for_resource e resource_name of
        Inl err \<Rightarrow> Inl err
      | Inr w \<Rightarrow>
          (case calculate_processing_time_for_resource e resource_name of
             Inl err \<Rightarrow> Inl err
           | Inr p \<Rightarrow> statistics_loop e rest (waiting + w) (processing + p)))"

text \<open>\<open>self.disposal_time - self.creation_time\<close> is a \<open>TypeError\<close> when \<open>creation_time\<close> is
  still \<open>None\<close>; it is evaluated after the loop and before any of the three assignments.\<close>

definition calculate_statistics :: "entity \<Rightarrow> py_error + entity" where
  "calculate_statistics e =
     (if \<not> is_disposed e then
        Inl (Exception ''Entity is not yet disposed. Dispose of this entity before calculating stats'')
      else
        (case statistics_loop e (DAList.impl_of (resources_requested e)) 0 0 of
           Inl err \<Rightarrow> Inl err
         | Inr (waiting, processing) \<Rightarrow>
             (case (disposal_time e, creation_time e) of
                (Some d, Some c) \<Rightarrow>
                  Inr (e\<lparr>total_time := Some (d - c),
                         waiting_time := Some waiting,
                         processing_time := Some processing\<rparr>)
              | _ \<Rightarrow> Inl TypeError)))"

text \<open>The getters return the value together with the entity, on which the statistics
  have been stored.\<close>

definition get_total_time :: "entity \<Rightarrow> py_error + real \<times> entity" where
  "get_total_time e =
     (if is_disposed e then
        (case calculate_statistics e of
           Inl err \<Rightarrow> Inl err
         | Inr e' \<Rightarrow>
             (case total_time e' of None \<Rightarrow> Inl AttributeError | Some v \<Rightarrow> Inr (v, e')))
      else Inl (Exception ''Can't get total time: Entity has not been disposed''))"

definition get_total_waiting_time :: "entity \<Rightarrow> py_error + real \<times> entity" where
  "get_total_waiting_time e =
     (if is_disposed e then
        (case calculate_statistics e of
           Inl err \<Rightarrow> Inl err
         | Inr e' \<Rightarrow>
             (case waiting_time e' of None \<Rightarrow> Inl AttributeError | Some v \<Rightarrow> Inr (v, e')))
      else Inl (Exception ''Can't get total waiting time: Entity has not been disposed''))"

definition get_total_processing_time :: "entity \<Rightarrow> py_error + real \<times> entity" where
  "get_total_processing_time e =
     (if is_disposed e then
        (case calculate_statistics e of
           Inl err \<Rightarrow> Inl err
         | Inr e' \<Rightarrow>
             (case processing_time e' of None \<Rightarrow> Inl AttributeError | Some v \<Rightarrow> Inr (v, e')))
      else Inl (Exception ''Can't get total processing time: Entity has not been disposed''))"

definition get_waiting_time_for_resource :: "entity \<Rightarrow> resource \<Rightarrow> py_error + real" where
  "get_waiting_time_for_resource e r = calculate_waiting_time_for_resource e (res_name r)"

definition get_processing_time_for_resource :: "entity \<Rightarrow> resource \<Rightarrow> py_error + real" where
  "get_processing_time_for_resource e r = calculate_processing_time_for_resource e (res_name r)"

text \<open>The assignment \<open>self.resources_requested[resource_name] = v\<close>.\<close>

definition assign_visit :: "entity \<Rightarrow> string \<Rightarrow> visit \<Rightarrow> entity" where
  "assign_visit e resource_name v =
     e\<lparr>resources_requested := DAList.update resource_name v (resources_requested e)\<rparr>"

definition add_resource_to_visited :: "entity \<Rightarrow> string \<Rightarrow> entity" where
  "add_resource_to_visited e resource_name =
     assign_visit e resource_name empty_resource_tracking_dict"

text \<open>\<open>self.resources_requested[resource_name][...] = ...\<close>: the record is looked up
  (a missing key raises) and one of its fields is overwritten in place.\<close>

definition stamp :: "entity \<Rightarrow> string \<Rightarrow> (visit \<Rightarrow> visit) \<Rightarrow> py_error + entity" where
  "stamp e resource_name f =
     (case DAList.lookup (resources_requested e) resource_name of
        None \<Rightarrow> Inl (KeyError resource_name)
      | Some resource_stats \<Rightarrow> Inr (assign_visit e resource_name (f resource_stats)))"

text \<open>The three methods below first print a line that reads \<open>self.name\<close>, an
  \<open>AttributeError\<close> on an entity that has none. \<open>request_resource\<close> and
  \<open>start_service_at_resource\<close> also write to the ledger of the resource, which is returned
  with the entity.\<close>

definition request_resource ::
  "entity \<Rightarrow> resource \<Rightarrow> real \<Rightarrow> 'q list \<Rightarrow> py_error + entity \<times> resource"
where
  "request_resource e r now queue =
     (case name e of
        None \<Rightarrow> Inl AttributeError
      | Some _ \<Rightarrow>
          (case stamp (add_resource_to_visited e (res_name r)) (res_name r)
                  (\<lambda>v. v\<lparr>arrival_time := now\<rparr>) of
             Inl err \<Rightarrow> Inl err
           | Inr e' \<Rightarrow> Inr (e', request r now queue)))"

definition start_service_at_resource ::
  "entity \<Rightarrow> resource \<Rightarrow> real \<Rightarrow> 'q list \<Rightarrow> py_error + entity \<times> resource"
where
  "start_service_at_resource e r now queue =
     (case name e of
        None \<Rightarrow> Inl AttributeError
      | Some _ \<Rightarrow>
          (case stamp e (res_name r) (\<lambda>v. v\<lparr>start_service_time := now\<rparr>) of
             Inl err \<Rightarrow> Inl err
           | Inr e' \<Rightarrow> Inr (e', add_queue_check r now queue)))"

definition release_resource :: "entity \<Rightarrow> resource \<Rightarrow> real \<Rightarrow> py_error + entity" where
  "release_resource e r now =
     (case name e of
        None \<Rightarrow> Inl AttributeError
      | Some _ \<Rightarrow> stamp e (res_name r) (\<lambda>v. v\<lparr>finish_service_time := now\<rparr>))"

text \<open>\<open>dispose\<close> assigns \<open>disposal_time\<close> first and prints afterwards, so the entity is
  stamped even when the print raises: the entity is returned beside the result.\<close>

definition dispose :: "entity \<Rightarrow> real \<Rightarrow> (py_error + real) \<times> entity" where
  "dispose e now =
     (let e' = e\<lparr>disposal_time := Some now\<rparr>
      in ((case name e' of None \<Rightarrow> Inl AttributeError | Some _ \<Rightarrow> Inr now), e'))"

subsection \<open>\<open>Source\<close>\<close>

text \<open>\<open>number\<close> is a count or \<open>float("Inf")\<close>.\<close>

record source =
  first_creation :: "real option"
  number :: enat
  entities :: "entity list"
  count :: nat

text \<open>Python's \<open>str\<close> of a non-negative integer.\<close>

fun show_nat :: "nat \<Rightarrow> string" where
  "show_nat n =
     (if n < 10 then [char_of (48 + n)]
      else show_nat (n div 10) @ [char_of (48 + n mod 10)])"

declare show_nat.simps [simp del]

text \<open>
  One pass of the loop of \<open>next_entity\<close>, for the delay \<open>time\<close> that the interarrival
  generator yields at the clock value \<open>now\<close>. The entity that the model's \<open>build_entity\<close>
  returns and the name of its class are arguments. The result is the pair yielded (the
  engine's timeout stands as its delay), or \<open>None\<close> when the loop breaks.
\<close>

definition next_entity_step ::
  "source \<Rightarrow> real \<Rightarrow> real \<Rightarrow> entity \<Rightarrow> string \<Rightarrow> (real \<times> entity) option \<times> source"
where
  "next_entity_step src now time built class_name =
     (let src1 = src\<lparr>count := count src + 1\<rparr>
      in if enat (length (entities src1)) = number src1 then (None, src1)
         else
           (let creation_time' = now + time;
                entity = built\<lparr>creation_time := Some creation_time',
                               name := Some (class_name @ '' '' @ show_nat (count src1))\<rparr>
            in (Some (time, entity), src1\<lparr>entities := entities src1 @ [entity]\<rparr>)))"

definition get_disposed_entities :: "source \<Rightarrow> entity list" where
  "get_disposed_entities src = filter is_disposed (entities src)"

text \<open>The list comprehensions of the three aggregators: the getter runs on each entity in
  turn and the first exception ends the comprehension. What the getters store on the
  entities is not read again and is dropped here.\<close>

fun comprehension ::
  "(entity \<Rightarrow> py_error + real \<times> entity) \<Rightarrow> entity list \<Rightarrow> py_error + real list"
where
  "comprehension getter [] = Inr []"
| "comprehension getter (entity # rest) =
     (case getter entity of
        Inl err \<Rightarrow> Inl err
      | Inr (v, _) \<Rightarrow>
          (case comprehension getter rest of
             Inl err \<Rightarrow> Inl err
           | Inr vs \<Rightarrow> Inr (v # vs)))"

definition get_total_times :: "source \<Rightarrow> py_error + real list" where
  "get_total_times src = comprehension get_total_time (get_disposed_entities src)"

definition get_waiting_times :: "source \<Rightarrow> py_error + real list" where
  "get_waiting_times src = comprehension get_total_waiting_time (get_disposed_entities src)"

definition get_processing_times :: "source \<Rightarrow> py_error + real list" where
  "get_processing_times src = comprehension get_total_processing_time (get_disposed_entities src)"

subsection \<open>The sums of the specification\<close>

text \<open>The total waiting and processing time as the specification words them: the sum,
  over the visit records of the entity, of start of service minus arrival, and of end of
  service minus start of service.\<close>

definition sum_of_waits :: "entity \<Rightarrow> real" where
  "sum_of_waits e =
     (\<Sum>(resource_name, v) \<leftarrow> DAList.impl_of (resources_requested e).
        start_service_time v - arrival_time v)"

definition sum_of_services :: "entity \<Rightarrow> real" where
  "sum_of_services e =
     (\<Sum>(resource_name, v) \<leftarrow> DAList.impl_of (resources_requested e).
        finish_service_time v - start_service_time v)"

subsection \<open>Sample objects\<close>

text \<open>An entity as the constructor leaves it, and one that a source has named and
  stamped with the creation time \<open>0\<close>.\<close>

definition fresh_entity :: entity where
  "fresh_entity =
     \<lparr>name = None, creation_time = None, disposal_time = None,
      resources_requested = DAList.empty,
      total_time = None, waiting_time = None, processing_time = None\<rparr>"

definition customer :: entity where
  "customer = fresh_entity\<lparr>name := Some ''Customer 1'', creation_time := Some 0\<rparr>"

definition counter :: resource where
  "counter = \<lparr>res_name = ''Counter'', queue_size = []\<rparr>"

text \<open>An entity that the model names itself and that no source has stamped.\<close>

definition walk_in :: entity where
  "walk_in = fresh_entity\<lparr>name := Some ''Walk-in 1''\<rparr>"

text \<open>The same entity after a visit to the counter (arrival \<open>0\<close>, start \<open>2\<close>, end
  \<open>5\<close>) and its disposal at \<open>5\<close>.\<close>

definition served_walk_in :: entity where
  "served_walk_in =
     (assign_visit walk_in ''Counter''
        \<lparr>arrival_time = 0, start_service_time = 2, finish_service_time = 5\<rparr>)
     \<lparr>disposal_time := Some 5\<rparr>"

text \<open>The customer after a visit to the counter (arrival \<open>1\<close>, start \<open>4\<close>, end \<open>6\<close>),
  not yet disposed.\<close>

definition waiting_customer :: entity where
  "waiting_customer =
     assign_visit customer ''Counter''
       \<lparr>arrival_time = 1, start_service_time = 4, finish_service_time = 6\<rparr>"

text \<open>The scenario of the specification: created at \<open>0\<close>, arrival at the counter at
  \<open>0\<close>, start of service at \<open>2\<close>, end at \<open>5\<close>, disposed at \<open>5\<close>.\<close>

definition served_customer :: entity where
  "served_customer =
     (assign_visit customer ''Counter''
        \<lparr>arrival_time = 0, start_service_time = 2, finish_service_time = 5\<rparr>)
     \<lparr>disposal_time := Some 5\<rparr>"

text \<open>The customer disposed at \<open>5\<close> without a visit, after one call of a getter.\<close>

definition queried_customer :: entity where
  "queried_customer =
     customer\<lparr>disposal_time := Some 5, total_time := Some 5,
              waiting_time := Some 0, processing_time := Some 0\<rparr>"

text \<open>A source with three entities: one served and disposed, one still in the system,
  one created at \<open>3\<close> and disposed at \<open>4\<close> without a visit.\<close>

definition shop :: source where
  "shop =
     \<lparr>first_creation = None, number = \<infinity>,
      entities = [served_customer, waiting_customer,
                  customer\<lparr>creation_time := Some 3, disposal_time := Some 4\<rparr>],
      count = 3\<rparr>"

section \<open>The queue-length series\<close>

lemma group_events_lookup:
  "group_events qs d t =
     (let evs = map snd (filter (\<lambda>e. fst e = t) qs)
      in if evs = [] then d t
         else Some ((case d t of None \<Rightarrow> [] | Some l \<Rightarrow> l) @ evs))"
proof (induction qs arbitrary: d)
  case Nil
  show ?case by simp
next
  case (Cons e qs)
  obtain time sz status where e: "e = (time, sz, status)"
    by (cases e) auto
  show ?case
    unfolding e by (simp add: Cons.IH Let_def split: option.split)
qed

lemma sizes_at_alt: "sizes_at qs t = map fst (map snd (filter (\<lambda>e. fst e = t) qs))"
  unfolding sizes_at_def by (induction qs) auto

lemma group_events_empty:
  "group_events qs Map.empty t =
     (if sizes_at qs t = [] then None else Some (map snd (filter (\<lambda>e. fst e = t) qs)))"
  by (simp add: group_events_lookup sizes_at_alt Let_def)

lemma biggest_size_fold: "biggest_size evs b = fold max (map fst evs) b"
proof (induction evs arbitrary: b)
  case Nil
  show ?case by simp
next
  case (Cons e evs)
  obtain sz status where e: "e = (sz, status)" by (cases e) auto
  show ?case unfolding e by (simp add: Cons.IH max_def)
qed

lemma biggest_size_Max: "biggest_size evs b = Max (insert b (set (map fst evs)))"
proof -
  have "Max (set (b # map fst evs)) = fold max (map fst evs) b"
    by (rule Max.set_eq_fold)
  then show ?thesis by (simp add: biggest_size_fold)
qed

lemma biggest_size_ge: "b \<le> biggest_size evs b"
  by (simp add: biggest_size_Max)

lemma tick_update_event:
  "sizes_at qs (real i) \<noteq> [] \<Longrightarrow>
   tick_update (group_events qs Map.empty) cur i = Max (insert 0 (set (sizes_at qs (real i))))"
  by (simp add: tick_update_def group_events_empty biggest_size_Max sizes_at_alt)

lemma tick_update_hold:
  "sizes_at qs (real i) = [] \<Longrightarrow> tick_update (group_events qs Map.empty) cur i = cur"
  by (simp add: tick_update_def group_events_empty)

lemma tick_update_nonneg: "0 \<le> cur \<Longrightarrow> 0 \<le> tick_update d cur i"
  by (simp add: tick_update_def biggest_size_ge split: option.split)

lemma foldl_tick_update_nonneg: "0 \<le> cur \<Longrightarrow> 0 \<le> foldl (tick_update d) cur ticks"
  by (induction ticks arbitrary: cur) (simp_all add: tick_update_nonneg)

lemma foldl_tick_hold_all:
  "\<forall>j \<in> set ticks. sizes_at qs (real j) = [] \<Longrightarrow>
   foldl (tick_update (group_events qs Map.empty)) cur ticks = cur"
  by (induction ticks arbitrary: cur) (simp_all add: tick_update_hold)

text \<open>The list that the second loop builds: the accumulator only grows at its end, and
  the entry of tick \<open>i\<close> is the running \<open>current_queue_size\<close> after ticks \<open>0..i\<close>.\<close>

lemma series_loop_acc:
  "series_loop d ticks cur acc = acc @ series_loop d ticks cur []"
proof (induction ticks arbitrary: cur acc)
  case Nil
  show ?case by simp
next
  case (Cons i ticks)
  show ?case
    using Cons.IH [of "tick_update d cur i" "acc @ [tick_update d cur i]"]
          Cons.IH [of "tick_update d cur i" "[tick_update d cur i]"]
    by (simp add: Let_def)
qed

lemma series_loop_length:
  "length (series_loop d ticks cur acc) = length acc + length ticks"
  by (induction ticks arbitrary: cur acc) (simp_all add: Let_def)

lemma series_loop_append:
  "series_loop d (xs @ ys) cur acc =
     series_loop d ys (foldl (tick_update d) cur xs) (series_loop d xs cur acc)"
  by (induction xs arbitrary: cur acc) (simp_all add: Let_def)

lemma series_loop_last:
  "series_loop d (xs @ [i]) cur acc ! (length acc + length xs) =
     foldl (tick_update d) cur (xs @ [i])"
  by (simp add: series_loop_append Let_def nth_append series_loop_length)

lemma series_loop_nth:
  assumes "i < n"
  shows "series_loop d [0..<n] 0 [] ! i = foldl (tick_update d) 0 [0..<Suc i]"
proof -
  have split: "[0..<n] = ([0..<i] @ [i]) @ [Suc i..<n]"
  proof -
    have "[0..<Suc i + (n - Suc i)] = [0..<Suc i] @ [Suc i..<Suc i + (n - Suc i)]"
      by (rule upt_add_eq_append) simp
    moreover have "Suc i + (n - Suc i) = n" using assms by simp
    ultimately show ?thesis by simp
  qed
  have "series_loop d [0..<n] 0 [] =
          series_loop d [Suc i..<n] (foldl (tick_update d) 0 ([0..<i] @ [i]))
            (series_loop d ([0..<i] @ [i]) 0 [])"
    by (subst split) (rule series_loop_append)
  also have "\<dots> = series_loop d ([0..<i] @ [i]) 0 [] @
                   series_loop d [Suc i..<n] (foldl (tick_update d) 0 ([0..<i] @ [i])) []"
    by (rule series_loop_acc)
  finally have "series_loop d [0..<n] 0 [] ! i = series_loop d ([0..<i] @ [i]) 0 [] ! i"
    by (simp add: nth_append series_loop_length del: series_loop.simps)
  also have "\<dots> = foldl (tick_update d) 0 ([0..<i] @ [i])"
    using series_loop_last [of d "[0..<i]" i 0 "[]"] by simp
  finally show ?thesis by simp
qed

lemma series_loop_cong:
  "\<forall>i \<in> set ticks. d (real i) = d' (real i) \<Longrightarrow>
   series_loop d ticks cur acc = series_loop d' ticks cur acc"
  by (induction ticks arbitrary: cur acc) (simp_all add: tick_update_def Let_def)

lemma py_range_length: "length (py_range (py_int now)) = nat \<lfloor>now\<rfloor>"
  unfolding py_range_def py_int_def by (auto simp: nat_eq_iff2)

lemma queue_series_length: "length (queue_size_over_time qs now) = nat \<lfloor>now\<rfloor>"
  by (simp add: queue_size_over_time_def series_loop_length py_range_length)

lemma queue_series_nth:
  assumes "i < length (queue_size_over_time qs now)"
  shows "queue_size_over_time qs now ! i =
           foldl (tick_update (group_events qs Map.empty)) 0 [0..<Suc i]"
proof -
  have "i < nat (py_int now)"
    using assms py_range_length [of now] by (simp add: queue_series_length py_range_def)
  then show ?thesis
    unfolding queue_size_over_time_def py_range_def by (rule series_loop_nth)
qed

text \<open>The lengths that \<open>request\<close> and \<open>add_queue_check\<close> record are lengths of the
  waiting line, so no recorded length is negative.\<close>

lemma request_sizes_nonneg:
  "\<forall>(time, sz, status) \<in> set (queue_size r). 0 \<le> sz \<Longrightarrow>
   \<forall>(time, sz, status) \<in> set (queue_size (request r now queue)). 0 \<le> sz"
  by (simp add: request_def)

lemma add_queue_check_sizes_nonneg:
  "\<forall>(time, sz, status) \<in> set (queue_size r). 0 \<le> sz \<Longrightarrow>
   \<forall>(time, sz, status) \<in> set (queue_size (add_queue_check r now queue)). 0 \<le> sz"
  by (simp add: add_queue_check_def)

lemma sizes_at_nonneg:
  "\<forall>(time, sz, status) \<in> set qs. 0 \<le> sz \<Longrightarrow> \<forall>s \<in> set (sizes_at qs t). 0 \<le> s"
  by (auto simp: sizes_at_def)

text \<open>
  \<^bold>\<open>C1.\<close> At a tick \<open>i\<close> of the series at which events were recorded with timestamp
  exactly \<open>i\<close>, the value of the series is the largest length observed among these
  events, whatever their recording order. The recorded lengths are lengths of the waiting
  line, hence not negative.
\<close>

theorem queue_series_max_at_tick:
  assumes "i < length (queue_size_over_time qs now)"
    and "sizes_at qs (real i) \<noteq> []"
    and "\<forall>s \<in> set (sizes_at qs (real i)). 0 \<le> s"
  shows "queue_size_over_time qs now ! i = Max (set (sizes_at qs (real i)))"
proof -
  have "queue_size_over_time qs now ! i = Max (insert 0 (set (sizes_at qs (real i))))"
    using assms(1,2) by (simp add: queue_series_nth tick_update_event)
  also have "\<dots> = max 0 (Max (set (sizes_at qs (real i))))"
    using assms(2) by simp
  also have "\<dots> = Max (set (sizes_at qs (real i)))"
  proof -
    obtain s where "s \<in> set (sizes_at qs (real i))"
      using assms(2) by (cases "sizes_at qs (real i)") auto
    then have "0 \<le> s" "s \<le> Max (set (sizes_at qs (real i)))"
      using assms(3) by auto
    then show ?thesis by simp
  qed
  finally show ?thesis .
qed

text \<open>The scenario of the specification: lengths \<open>2\<close> (\<open>request\<close>) and \<open>3\<close> (\<open>start\<close>)
  at time \<open>5\<close> give \<open>3\<close> at tick \<open>5\<close>, in either recording order.\<close>

theorem queue_series_max_at_tick_witness:
  "queue_size_over_time [(5, 2, ''request''), (5, 3, ''start'')] 6 ! 5 = 3 \<and>
   queue_size_over_time [(5, 3, ''start''), (5, 2, ''request'')] 6 ! 5 = 3"
  using queue_series_max_at_tick [of 5 "[(5, 2, ''request''), (5, 3, ''start'')]" 6]
        queue_series_max_at_tick [of 5 "[(5, 3, ''start''), (5, 2, ''request'')]" 6]
  by (simp add: queue_series_length sizes_at_def)

text \<open>
  \<^bold>\<open>C2.\<close> The series has \<open>floor(now)\<close> entries (none when the clock is not positive), no
  entry is negative, an entry at a tick with no event recorded exactly at it repeats the
  entry before it (the first entry is then \<open>0\<close>), and every entry up to which no tick
  has an event is \<open>0\<close>.
\<close>

theorem queue_series_shape:
  "length (queue_size_over_time qs now) = nat \<lfloor>now\<rfloor> \<and>
   (\<forall>v \<in> set (queue_size_over_time qs now). 0 \<le> v) \<and>
   (\<forall>i < length (queue_size_over_time qs now). sizes_at qs (real i) = [] \<longrightarrow>
        queue_size_over_time qs now ! i =
          (if i = 0 then 0 else queue_size_over_time qs now ! (i - 1))) \<and>
   (\<forall>i < length (queue_size_over_time qs now). (\<forall>j \<le> i. sizes_at qs (real j) = []) \<longrightarrow>
        queue_size_over_time qs now ! i = 0)"
proof (intro conjI allI impI ballI)
  show "length (queue_size_over_time qs now) = nat \<lfloor>now\<rfloor>"
    by (rule queue_series_length)
next
  fix v assume "v \<in> set (queue_size_over_time qs now)"
  then obtain i where "i < length (queue_size_over_time qs now)"
      "queue_size_over_time qs now ! i = v"
    by (auto simp: in_set_conv_nth)
  then show "0 \<le> v"
    using foldl_tick_update_nonneg [of 0 "group_events qs Map.empty" "[0..<Suc i]"]
    by (simp add: queue_series_nth del: upt_Suc)
next
  fix i
  assume i: "i < length (queue_size_over_time qs now)" and none: "sizes_at qs (real i) = []"
  show "queue_size_over_time qs now ! i =
          (if i = 0 then 0 else queue_size_over_time qs now ! (i - 1))"
  proof (cases i)
    case 0
    then show ?thesis using i none by (simp add: queue_series_nth tick_update_hold)
  next
    case (Suc k)
    then have "k < length (queue_size_over_time qs now)" using i by simp
    then have "queue_size_over_time qs now ! k =
                 foldl (tick_update (group_events qs Map.empty)) 0 [0..<Suc k]"
      by (rule queue_series_nth)
    moreover have "queue_size_over_time qs now ! i =
        tick_update (group_events qs Map.empty)
          (foldl (tick_update (group_events qs Map.empty)) 0 [0..<Suc k]) i"
      using i Suc by (simp add: queue_series_nth)
    ultimately show ?thesis using none Suc by (simp add: tick_update_hold)
  qed
next
  fix i
  assume i: "i < length (queue_size_over_time qs now)"
    and none: "\<forall>j \<le> i. sizes_at qs (real j) = []"
  have "\<forall>j \<in> set [0..<Suc i]. sizes_at qs (real j) = []"
    using none by simp
  then have "foldl (tick_update (group_events qs Map.empty)) 0 [0..<Suc i] = 0"
    by (rule foldl_tick_hold_all)
  then show "queue_size_over_time qs now ! i = 0"
    using i by (simp add: queue_series_nth del: upt_Suc)
qed

theorem queue_series_shape_witness:
  "length (queue_size_over_time [(1, 2, ''request''), (1, 1, ''start'')] (7/2)) = 3 \<and>
   sizes_at [(1, 2, ''request''), (1, 1, ''start'')] (real 2) = [] \<and>
   queue_size_over_time [(1, 2, ''request''), (1, 1, ''start'')] (7/2) ! 2 =
     queue_size_over_time [(1, 2, ''request''), (1, 1, ''start'')] (7/2) ! 1 \<and>
   sizes_at [(1, 2, ''request''), (1, 1, ''start'')] (real 0) = [] \<and>
   queue_size_over_time [(1, 2, ''request''), (1, 1, ''start'')] (7/2) ! 0 = 0"
  using queue_series_shape [of "[(1, 2, ''request''), (1, 1, ''start'')]" "7/2"]
  by (simp add: sizes_at_def)

text \<open>
  \<^bold>\<open>C7.\<close> An event whose timestamp is not an integer changes no entry of the series:
  the series of a log with such an event anywhere in it is the series of the log without
  it.
\<close>

theorem fractional_event_invisible:
  assumes "t \<notin> \<int>"
  shows "queue_size_over_time (xs @ (t, sz, status) # ys) now =
         queue_size_over_time (xs @ ys) now"
proof -
  have "group_events (xs @ (t, sz, status) # ys) Map.empty (real i) =
        group_events (xs @ ys) Map.empty (real i)" for i
  proof -
    have "real i \<in> \<int>" by simp
    then have "real i \<noteq> t" using assms by auto
    then show ?thesis by (simp add: group_events_lookup Let_def)
  qed
  then show ?thesis
    unfolding queue_size_over_time_def by (intro series_loop_cong) simp
qed

theorem fractional_event_invisible_witness:
  "(5/2::real) \<notin> \<int> \<and>
   queue_size_over_time ([(1, 2, ''request'')] @ (5/2, 4, ''request'') # [(3, 1, ''start'')]) 6 =
   queue_size_over_time ([(1, 2, ''request'')] @ [(3, 1, ''start'')]) 6"
proof -
  have h: "(5/2::real) \<notin> \<int>"
    by (simp add: frac_eq_0_iff [symmetric] frac_def)
  show ?thesis
    using h fractional_event_invisible
              [OF h, of "[(1, 2, ''request'')]" 4 "''request''" "[(3, 1, ''start'')]" 6]
    by simp
qed

section \<open>Entities\<close>

subsection \<open>The ordered dictionary\<close>

lemma impl_of_empty: "DAList.impl_of DAList.empty = []"
  by (rule DAList.empty.rep_eq)

lemma impl_of_update:
  "DAList.impl_of (DAList.update k v al) = AList.update k v (DAList.impl_of al)"
  by (rule DAList.update.rep_eq)

lemma lookup_impl_of:
  "(k, v) \<in> set (DAList.impl_of al) \<Longrightarrow> DAList.lookup al k = Some v"
  by (simp add: DAList.lookup.rep_eq)

lemma lookup_None_iff:
  "DAList.lookup al k = None \<longleftrightarrow> k \<notin> set (map fst (DAList.impl_of al))"
  by (simp add: DAList.lookup.rep_eq map_of_eq_None_iff)

lemma sum_list_update:
  assumes "distinct (map fst al)"
  shows "sum_list (map g (AList.update k v al)) =
           (g (k, v) :: real) + sum_list (map g (filter (\<lambda>p. fst p \<noteq> k) al))"
  using assms
proof (induction al)
  case Nil
  show ?case by simp
next
  case (Cons p ps)
  show ?case
  proof (cases "fst p = k")
    case True
    then have "k \<notin> fst ` set ps" using Cons.prems by auto
    then have "filter (\<lambda>p. fst p \<noteq> k) ps = ps"
      by (auto simp: filter_id_conv)
    then show ?thesis using True by simp
  next
    case False
    then show ?thesis using Cons by simp
  qed
qed

subsection \<open>The statistics\<close>

text \<open>Every key that the loop of \<open>_calculate_statistics\<close> meets is a key of the
  dictionary, so no lookup in it fails and the two running sums end as the sums over
  the visit records.\<close>

lemma statistics_loop_sums:
  assumes "\<forall>(k, v) \<in> set xs. DAList.lookup (resources_requested e) k = Some v"
  shows "statistics_loop e xs waiting processing =
           Inr (waiting + (\<Sum>(k, v) \<leftarrow> xs. start_service_time v - arrival_time v),
                processing + (\<Sum>(k, v) \<leftarrow> xs. finish_service_time v - start_service_time v))"
  using assms
proof (induction xs arbitrary: waiting processing)
  case Nil
  show ?case by simp
next
  case (Cons x xs)
  obtain k v where x: "x = (k, v)" by (cases x) auto
  have look: "DAList.lookup (resources_requested e) k = Some v"
    using Cons.prems x by simp
  have rest: "\<forall>(k, v) \<in> set xs. DAList.lookup (resources_requested e) k = Some v"
    using Cons.prems by simp
  show ?case
    unfolding x
    by (simp add: calculate_waiting_time_for_resource_def
                  calculate_processing_time_for_resource_def look Cons.IH [OF rest])
qed

lemma statistics_loop_all:
  "statistics_loop e (DAList.impl_of (resources_requested e)) 0 0 =
     Inr (sum_of_waits e, sum_of_services e)"
proof -
  have "\<forall>(k, v) \<in> set (DAList.impl_of (resources_requested e)).
          DAList.lookup (resources_requested e) k = Some v"
    by (auto intro: lookup_impl_of)
  then show ?thesis
    by (simp add: statistics_loop_sums sum_of_waits_def sum_of_services_def)
qed

lemma calculate_statistics_eq:
  "calculate_statistics e =
     (case disposal_time e of
        None \<Rightarrow>
          Inl (Exception ''Entity is not yet disposed. Dispose of this entity before calculating stats'')
      | Some d \<Rightarrow>
          (case creation_time e of
             None \<Rightarrow> Inl TypeError
           | Some c \<Rightarrow>
               Inr (e\<lparr>total_time := Some (d - c),
                      waiting_time := Some (sum_of_waits e),
                      processing_time := Some (sum_of_services e)\<rparr>)))"
  by (simp add: calculate_statistics_def is_disposed_def statistics_loop_all split: option.split)

lemma get_total_time_eq:
  "get_total_time e =
     (case disposal_time e of
        None \<Rightarrow> Inl (Exception ''Can't get total time: Entity has not been disposed'')
      | Some d \<Rightarrow>
          (case creation_time e of
             None \<Rightarrow> Inl TypeError
           | Some c \<Rightarrow>
               Inr (d - c,
                    e\<lparr>total_time := Some (d - c),
                      waiting_time := Some (sum_of_waits e),
                      processing_time := Some (sum_of_services e)\<rparr>)))"
  by (simp add: get_total_time_def is_disposed_def calculate_statistics_eq split: option.split)

lemma get_total_waiting_time_eq:
  "get_total_waiting_time e =
     (case disposal_time e of
        None \<Rightarrow> Inl (Exception ''Can't get total waiting time: Entity has not been disposed'')
      | Some d \<Rightarrow>
          (case creation_time e of
             None \<Rightarrow> Inl TypeError
           | Some c \<Rightarrow>
               Inr (sum_of_waits e,
                    e\<lparr>total_time := Some (d - c),
                      waiting_time := Some (sum_of_waits e),
                      processing_time := Some (sum_of_services e)\<rparr>)))"
  by (simp add: get_total_waiting_time_def is_disposed_def calculate_statistics_eq
           split: option.split)

lemma get_total_processing_time_eq:
  "get_total_processing_time e =
     (case disposal_time e of
        None \<Rightarrow> Inl (Exception ''Can't get total processing time: Entity has not been disposed'')
      | Some d \<Rightarrow>
          (case creation_time e of
             None \<Rightarrow> Inl TypeError
           | Some c \<Rightarrow>
               Inr (sum_of_services e,
                    e\<lparr>total_time := Some (d - c),
                      waiting_time := Some (sum_of_waits e),
                      processing_time := Some (sum_of_services e)\<rparr>)))"
  by (simp add: get_total_processing_time_def is_disposed_def calculate_statistics_eq
           split: option.split)

lemmas getters_eq = get_total_time_eq get_total_waiting_time_eq get_total_processing_time_eq

text \<open>
  \<^bold>\<open>C3\<close> (amended). On a disposed entity with a creation time, \<open>get_total_time\<close> returns disposal
  time minus creation time, \<open>get_total_waiting_time\<close> the sum over the visit records of
  start of service minus arrival, and \<open>get_total_processing_time\<close> the sum of end of
  service minus start of service; each stores the three values on the entity.
\<close>

theorem disposed_statistics:
  assumes "disposal_time e = Some d" and "creation_time e = Some c"
  shows "get_total_time e =
           Inr (d - c, e\<lparr>total_time := Some (d - c), waiting_time := Some (sum_of_waits e),
                          processing_time := Some (sum_of_services e)\<rparr>) \<and>
         get_total_waiting_time e =
           Inr (sum_of_waits e,
                e\<lparr>total_time := Some (d - c), waiting_time := Some (sum_of_waits e),
                  processing_time := Some (sum_of_services e)\<rparr>) \<and>
         get_total_processing_time e =
           Inr (sum_of_services e,
                e\<lparr>total_time := Some (d - c), waiting_time := Some (sum_of_waits e),
                  processing_time := Some (sum_of_services e)\<rparr>)"
  using assms by (simp add: getters_eq)

text \<open>The scenario of the specification gives total time \<open>5\<close>, waiting time \<open>2\<close> and
  processing time \<open>3\<close>.\<close>

theorem disposed_statistics_witness:
  "get_total_time served_customer =
     Inr (5, served_customer\<lparr>total_time := Some 5, waiting_time := Some 2,
                             processing_time := Some 3\<rparr>) \<and>
   get_total_waiting_time served_customer =
     Inr (2, served_customer\<lparr>total_time := Some 5, waiting_time := Some 2,
                             processing_time := Some 3\<rparr>) \<and>
   get_total_processing_time served_customer =
     Inr (3, served_customer\<lparr>total_time := Some 5, waiting_time := Some 2,
                             processing_time := Some 3\<rparr>)"
proof -
  have d: "disposal_time served_customer = Some 5"
    and c: "creation_time served_customer = Some 0"
    by (simp_all add: served_customer_def assign_visit_def customer_def fresh_entity_def)
  have w: "sum_of_waits served_customer = 2" and s: "sum_of_services served_customer = 3"
    by (simp_all add: sum_of_waits_def sum_of_services_def served_customer_def assign_visit_def
                      customer_def fresh_entity_def impl_of_update impl_of_empty)
  show ?thesis
    using disposed_statistics [OF d c] by (simp add: w s)
qed

text \<open>The constructor leaves \<open>creation_time\<close> at \<open>None\<close>. On a disposed entity that no
  source has stamped the two sums over the visit records are defined, here \<open>2\<close> and
  \<open>3\<close>, but \<open>_calculate_statistics\<close> raises the \<open>TypeError\<close> of
  \<open>self.disposal_time - self.creation_time\<close> before it assigns any of the three
  statistics, so none of the getters returns a total.\<close>

theorem disposed_statistics_counterexample:
  "dispose
       (assign_visit walk_in ''Counter''
          \<lparr>arrival_time = 0, start_service_time = 2, finish_service_time = 5\<rparr>) 5 =
     (Inr 5, served_walk_in) \<and>
   is_disposed served_walk_in \<and>
   creation_time served_walk_in = None \<and>
   sum_of_waits served_walk_in = 2 \<and>
   sum_of_services served_walk_in = 3 \<and>
   get_total_time served_walk_in = Inl TypeError \<and>
   get_total_waiting_time served_walk_in = Inl TypeError \<and>
   get_total_processing_time served_walk_in = Inl TypeError"
  by (simp add: dispose_def is_disposed_def served_walk_in_def assign_visit_def walk_in_def
        fresh_entity_def getters_eq sum_of_waits_def sum_of_services_def impl_of_update
        impl_of_empty)

text \<open>
  \<^bold>\<open>C4\<close> (amended). On an entity whose disposal time is unset, each of the three getters
  raises its "has not been disposed" exception. On an entity whose disposal time and
  creation time are both set, each of them returns a value.
\<close>

theorem getters_disposal_gate:
  "(disposal_time e = None \<longrightarrow>
      get_total_time e =
        Inl (Exception ''Can't get total time: Entity has not been disposed'') \<and>
      get_total_waiting_time e =
        Inl (Exception ''Can't get total waiting time: Entity has not been disposed'') \<and>
      get_total_processing_time e =
        Inl (Exception ''Can't get total processing time: Entity has not been disposed'')) \<and>
   (disposal_time e \<noteq> None \<and> creation_time e \<noteq> None \<longrightarrow>
      (\<exists>v e'. get_total_time e = Inr (v, e')) \<and>
      (\<exists>v e'. get_total_waiting_time e = Inr (v, e')) \<and>
      (\<exists>v e'. get_total_processing_time e = Inr (v, e')))"
  by (auto simp: getters_eq)

theorem getters_disposal_gate_witness:
  "disposal_time walk_in = None \<and>
   get_total_time walk_in =
     Inl (Exception ''Can't get total time: Entity has not been disposed'') \<and>
   disposal_time served_customer \<noteq> None \<and> creation_time served_customer \<noteq> None \<and>
   (\<exists>v e'. get_total_time served_customer = Inr (v, e'))"
  using getters_disposal_gate [of walk_in] getters_disposal_gate [of served_customer]
  by (simp add: walk_in_def served_customer_def assign_visit_def customer_def fresh_entity_def)

text \<open>The constructor leaves \<open>creation_time\<close> at \<open>None\<close>. An entity that was never
  stamped by a source and is disposed has its disposal time set, and each getter raises
  the \<open>TypeError\<close> of \<open>self.disposal_time - self.creation_time\<close>.\<close>

theorem getters_disposal_gate_counterexample:
  "dispose walk_in 5 = (Inr 5, walk_in\<lparr>disposal_time := Some 5\<rparr>) \<and>
   disposal_time (walk_in\<lparr>disposal_time := Some 5\<rparr>) \<noteq> None \<and>
   get_total_time (walk_in\<lparr>disposal_time := Some 5\<rparr>) = Inl TypeError \<and>
   get_total_waiting_time (walk_in\<lparr>disposal_time := Some 5\<rparr>) = Inl TypeError \<and>
   get_total_processing_time (walk_in\<lparr>disposal_time := Some 5\<rparr>) = Inl TypeError"
  by (simp add: dispose_def walk_in_def fresh_entity_def getters_eq)

text \<open>
  \<^bold>\<open>C5\<close> (amended). The getters never read the stored statistics: whatever values
  \<open>total_time\<close>, \<open>waiting_time\<close> and \<open>processing_time\<close> hold, each getter returns what it
  returns without them, the value recomputed from the current creation time, disposal
  time and visit records, and stores the three values anew.
\<close>

theorem statistics_recomputed:
  "get_total_time (e\<lparr>total_time := a, waiting_time := b, processing_time := c\<rparr>) =
     get_total_time e \<and>
   get_total_waiting_time (e\<lparr>total_time := a, waiting_time := b, processing_time := c\<rparr>) =
     get_total_waiting_time e \<and>
   get_total_processing_time (e\<lparr>total_time := a, waiting_time := b, processing_time := c\<rparr>) =
     get_total_processing_time e"
  by (simp add: getters_eq sum_of_waits_def sum_of_services_def split: option.split)

text \<open>A first call returns \<open>5\<close> and stores it; after the disposal time has been set to
  \<open>7\<close> a second call returns \<open>7\<close>, not the stored \<open>5\<close>.\<close>

theorem statistics_recomputed_counterexample:
  "get_total_time (snd (dispose customer 5)) = Inr (5, queried_customer) \<and>
   total_time queried_customer = Some 5 \<and>
   get_total_time (snd (dispose queried_customer 7)) =
     Inr (7, queried_customer\<lparr>disposal_time := Some 7, total_time := Some 7\<rparr>)"
  by (simp add: dispose_def queried_customer_def customer_def fresh_entity_def getters_eq
                sum_of_waits_def sum_of_services_def impl_of_empty)

text \<open>
  \<^bold>\<open>C6\<close> (amended). Every call of \<open>dispose\<close> stamps the disposal time with the current
  time, so a second call overwrites the first stamp; on a named entity it returns the
  stamp. \<open>is_disposed\<close> holds exactly when the disposal time is set.
\<close>

theorem dispose_stamps:
  "disposal_time (snd (dispose e now)) = Some now \<and>
   disposal_time (snd (dispose (snd (dispose e now)) later)) = Some later \<and>
   (name e \<noteq> None \<longrightarrow> fst (dispose e now) = Inr now) \<and>
   (is_disposed e \<longleftrightarrow> disposal_time e \<noteq> None) \<and>
   is_disposed (snd (dispose e now))"
  by (auto simp: dispose_def is_disposed_def Let_def)

theorem dispose_stamps_witness:
  "name customer \<noteq> None \<and>
   disposal_time (snd (dispose customer 5)) = Some 5 \<and>
   fst (dispose customer 5) = Inr 5 \<and>
   \<not> is_disposed customer \<and>
   is_disposed (snd (dispose customer 5))"
  using dispose_stamps [of customer 5]
  by (simp add: customer_def fresh_entity_def)

text \<open>Disposed at \<open>3\<close> and again at \<open>7\<close>, the customer ends with the disposal time
  \<open>7\<close>.\<close>

theorem dispose_stamps_counterexample:
  "disposal_time (snd (dispose customer 3)) = Some 3 \<and>
   fst (dispose (snd (dispose customer 3)) 7) = Inr 7 \<and>
   disposal_time (snd (dispose (snd (dispose customer 3)) 7)) = Some 7"
  by (simp add: dispose_def customer_def fresh_entity_def)

text \<open>
  \<^bold>\<open>C10.\<close> \<open>get_waiting_time_for_resource\<close> and \<open>get_processing_time_for_resource\<close>
  raise exactly when the name of the resource is not a key of \<open>resources_requested\<close>,
  and then a \<open>KeyError\<close>; for a key with the record \<open>v\<close> they return the differences
  of the timestamps of \<open>v\<close>. The disposal time plays no part.
\<close>

theorem per_resource_times:
  "((\<exists>err. get_waiting_time_for_resource e r = Inl err) \<longleftrightarrow>
      res_name r \<notin> set (map fst (DAList.impl_of (resources_requested e)))) \<and>
   ((\<exists>err. get_processing_time_for_resource e r = Inl err) \<longleftrightarrow>
      res_name r \<notin> set (map fst (DAList.impl_of (resources_requested e)))) \<and>
   (res_name r \<notin> set (map fst (DAList.impl_of (resources_requested e))) \<longrightarrow>
      get_waiting_time_for_resource e r = Inl (KeyError (res_name r)) \<and>
      get_processing_time_for_resource e r = Inl (KeyError (res_name r))) \<and>
   (\<forall>v. (res_name r, v) \<in> set (DAList.impl_of (resources_requested e)) \<longrightarrow>
      get_waiting_time_for_resource e r = Inr (start_service_time v - arrival_time v) \<and>
      get_processing_time_for_resource e r = Inr (finish_service_time v - start_service_time v))"
proof -
  have none: "get_waiting_time_for_resource e r = Inl (KeyError (res_name r)) \<and>
              get_processing_time_for_resource e r = Inl (KeyError (res_name r))"
    if "res_name r \<notin> set (map fst (DAList.impl_of (resources_requested e)))"
    using that lookup_None_iff [of "resources_requested e" "res_name r"]
    by (simp add: get_waiting_time_for_resource_def get_processing_time_for_resource_def
          calculate_waiting_time_for_resource_def calculate_processing_time_for_resource_def)
  have some: "get_waiting_time_for_resource e r = Inr (start_service_time v - arrival_time v) \<and>
              get_processing_time_for_resource e r =
                Inr (finish_service_time v - start_service_time v)"
    if "(res_name r, v) \<in> set (DAList.impl_of (resources_requested e))" for v
    using lookup_impl_of [OF that]
    by (simp add: get_waiting_time_for_resource_def get_processing_time_for_resource_def
          calculate_waiting_time_for_resource_def calculate_processing_time_for_resource_def)
  have cases: "res_name r \<notin> set (map fst (DAList.impl_of (resources_requested e))) \<or>
               (\<exists>v. (res_name r, v) \<in> set (DAList.impl_of (resources_requested e)))"
    by force
  show ?thesis
    using none some cases by (intro conjI; force)
qed

theorem per_resource_times_witness:
  "disposal_time waiting_customer = None \<and>
   get_waiting_time_for_resource waiting_customer counter = Inr 3 \<and>
   get_processing_time_for_resource waiting_customer counter = Inr 2 \<and>
   get_waiting_time_for_resource customer counter = Inl (KeyError ''Counter'')"
  using per_resource_times [of waiting_customer counter] per_resource_times [of customer counter]
  by (simp add: waiting_customer_def assign_visit_def customer_def fresh_entity_def counter_def
                impl_of_update impl_of_empty)

subsection \<open>Visits\<close>

lemma assign_visit_fields:
  "name (assign_visit e k v) = name e"
  "creation_time (assign_visit e k v) = creation_time e"
  "disposal_time (assign_visit e k v) = disposal_time e"
  "resources_requested (assign_visit e k v) = DAList.update k v (resources_requested e)"
  by (simp_all add: assign_visit_def)

lemma assign_visit_twice: "assign_visit (assign_visit e k v) k v' = assign_visit e k v'"
  by (simp add: assign_visit_def)

lemma lookup_assign_visit:
  "DAList.lookup (resources_requested (assign_visit e k v)) k' =
     (if k = k' then Some v else DAList.lookup (resources_requested e) k')"
  by (simp add: assign_visit_def DAList.lookup_update)

lemma stamp_after_add:
  "stamp (add_resource_to_visited e k) k f = Inr (assign_visit e k (f empty_resource_tracking_dict))"
  by (simp add: stamp_def add_resource_to_visited_def lookup_assign_visit assign_visit_twice)

lemma stamp_assigned:
  "stamp (assign_visit e k v) k f = Inr (assign_visit e k (f v))"
  by (simp add: stamp_def lookup_assign_visit assign_visit_twice)

lemma request_res_name: "res_name (request r now queue) = res_name r"
  by (simp add: request_def)

lemma add_queue_check_res_name: "res_name (add_queue_check r now queue) = res_name r"
  by (simp add: add_queue_check_def)

lemma sum_of_waits_assign:
  "sum_of_waits (assign_visit e k v) =
     (start_service_time v - arrival_time v) +
     (\<Sum>(k', v') \<leftarrow> filter (\<lambda>p. fst p \<noteq> k) (DAList.impl_of (resources_requested e)).
        start_service_time v' - arrival_time v')"
  by (simp add: sum_of_waits_def assign_visit_def impl_of_update sum_list_update)

lemma sum_of_services_assign:
  "sum_of_services (assign_visit e k v) =
     (finish_service_time v - start_service_time v) +
     (\<Sum>(k', v') \<leftarrow> filter (\<lambda>p. fst p \<noteq> k) (DAList.impl_of (resources_requested e)).
        finish_service_time v' - start_service_time v')"
  by (simp add: sum_of_services_def assign_visit_def impl_of_update sum_list_update)

text \<open>
  \<^bold>\<open>C8.\<close> A request for a resource by a named entity replaces whatever record the
  entity holds for that resource by one with the arrival stamped and the other two
  timestamps \<open>0\<close>; the start and the end of service then stamp this record. After the
  visit the record of the resource holds the three timestamps of this visit, and the
  sums that \<open>_calculate_statistics\<close> computes are the contribution of this visit plus
  those of the records of the other resources: an earlier record of the same resource
  contributes nothing.
\<close>

theorem revisit_overwrites_record:
  assumes "name e \<noteq> None"
  shows
    "request_resource e r a queue =
       Inr (assign_visit e (res_name r)
              \<lparr>arrival_time = a, start_service_time = 0, finish_service_time = 0\<rparr>,
            request r a queue) \<and>
     start_service_at_resource
         (assign_visit e (res_name r)
            \<lparr>arrival_time = a, start_service_time = 0, finish_service_time = 0\<rparr>)
         (request r a queue) s queue' =
       Inr (assign_visit e (res_name r)
              \<lparr>arrival_time = a, start_service_time = s, finish_service_time = 0\<rparr>,
            add_queue_check (request r a queue) s queue') \<and>
     release_resource
         (assign_visit e (res_name r)
            \<lparr>arrival_time = a, start_service_time = s, finish_service_time = 0\<rparr>)
         (add_queue_check (request r a queue) s queue') f =
       Inr (assign_visit e (res_name r)
              \<lparr>arrival_time = a, start_service_time = s, finish_service_time = f\<rparr>) \<and>
     DAList.lookup
         (resources_requested
            (assign_visit e (res_name r)
               \<lparr>arrival_time = a, start_service_time = s, finish_service_time = f\<rparr>))
         (res_name r) =
       Some \<lparr>arrival_time = a, start_service_time = s, finish_service_time = f\<rparr> \<and>
     statistics_loop
         (assign_visit e (res_name r)
            \<lparr>arrival_time = a, start_service_time = s, finish_service_time = f\<rparr>)
         (DAList.impl_of
            (resources_requested
               (assign_visit e (res_name r)
                  \<lparr>arrival_time = a, start_service_time = s, finish_service_time = f\<rparr>)))
         0 0 =
       Inr ((s - a) +
            (\<Sum>(k, v) \<leftarrow> filter (\<lambda>p. fst p \<noteq> res_name r)
                               (DAList.impl_of (resources_requested e)).
               start_service_time v - arrival_time v),
            (f - s) +
            (\<Sum>(k, v) \<leftarrow> filter (\<lambda>p. fst p \<noteq> res_name r)
                               (DAList.impl_of (resources_requested e)).
               finish_service_time v - start_service_time v))"
proof -
  obtain n where n: "name e = Some n" using assms by auto
  show ?thesis
    by (simp add: request_resource_def start_service_at_resource_def release_resource_def n
          assign_visit_fields(1) stamp_after_add stamp_assigned request_res_name
          add_queue_check_res_name empty_resource_tracking_dict_def lookup_assign_visit
          statistics_loop_all sum_of_waits_assign sum_of_services_assign)
qed

text \<open>A customer visits the counter at \<open>1\<close>, \<open>4\<close>, \<open>6\<close> and again at \<open>10\<close>, \<open>11\<close>,
  \<open>13\<close>: the sums are \<open>1\<close> and \<open>2\<close>.\<close>

theorem revisit_overwrites_record_witness:
  "name customer \<noteq> None \<and>
   release_resource
       (assign_visit customer ''Counter''
          \<lparr>arrival_time = 1, start_service_time = 4, finish_service_time = 0\<rparr>)
       (add_queue_check (request counter 1 [()]) 4 ([] :: unit list)) 6 =
     Inr waiting_customer \<and>
   name waiting_customer \<noteq> None \<and>
   DAList.lookup (resources_requested waiting_customer) ''Counter'' =
     Some \<lparr>arrival_time = 1, start_service_time = 4, finish_service_time = 6\<rparr> \<and>
   request_resource waiting_customer counter 10 [()] =
     Inr (assign_visit customer ''Counter''
            \<lparr>arrival_time = 10, start_service_time = 0, finish_service_time = 0\<rparr>,
          request counter 10 [()]) \<and>
   statistics_loop
       (assign_visit customer ''Counter''
          \<lparr>arrival_time = 10, start_service_time = 11, finish_service_time = 13\<rparr>)
       (DAList.impl_of
          (resources_requested
             (assign_visit customer ''Counter''
                \<lparr>arrival_time = 10, start_service_time = 11, finish_service_time = 13\<rparr>)))
       0 0 = Inr (1, 2)"
  using revisit_overwrites_record [of customer counter 1 "[()]" 4 "[] :: unit list" 6]
        revisit_overwrites_record [of waiting_customer counter 10 "[()]" 11 "[] :: unit list" 13]
  by (simp add: waiting_customer_def assign_visit_twice assign_visit_fields customer_def
        fresh_entity_def counter_def lookup_assign_visit impl_of_update impl_of_empty)

text \<open>The scenario of the specification, run through the methods of the entity.\<close>

lemma served_customer_run:
  "request_resource customer counter 0 ([] :: unit list) =
     Inr (assign_visit customer ''Counter''
            \<lparr>arrival_time = 0, start_service_time = 0, finish_service_time = 0\<rparr>,
          request counter 0 ([] :: unit list)) \<and>
   start_service_at_resource
       (assign_visit customer ''Counter''
          \<lparr>arrival_time = 0, start_service_time = 0, finish_service_time = 0\<rparr>)
       (request counter 0 ([] :: unit list)) 2 ([] :: unit list) =
     Inr (assign_visit customer ''Counter''
            \<lparr>arrival_time = 0, start_service_time = 2, finish_service_time = 0\<rparr>,
          add_queue_check (request counter 0 ([] :: unit list)) 2 ([] :: unit list)) \<and>
   release_resource
       (assign_visit customer ''Counter''
          \<lparr>arrival_time = 0, start_service_time = 2, finish_service_time = 0\<rparr>)
       (add_queue_check (request counter 0 ([] :: unit list)) 2 ([] :: unit list)) 5 =
     Inr (assign_visit customer ''Counter''
            \<lparr>arrival_time = 0, start_service_time = 2, finish_service_time = 5\<rparr>) \<and>
   dispose
       (assign_visit customer ''Counter''
          \<lparr>arrival_time = 0, start_service_time = 2, finish_service_time = 5\<rparr>) 5 =
     (Inr 5, served_customer)"
  by (simp add: request_resource_def start_service_at_resource_def release_resource_def
        dispose_def served_customer_def assign_visit_fields(1) stamp_after_add stamp_assigned
        request_res_name add_queue_check_res_name empty_resource_tracking_dict_def
        customer_def fresh_entity_def counter_def)

section \<open>Sources\<close>

lemma comprehension_total:
  assumes "\<forall>e \<in> set es. disposal_time e \<noteq> None \<and> creation_time e \<noteq> None"
  shows "comprehension get_total_time es =
           Inr (map (\<lambda>e. the (disposal_time e) - the (creation_time e)) es)"
  using assms by (induction es) (auto simp: get_total_time_eq)

lemma comprehension_waiting:
  assumes "\<forall>e \<in> set es. disposal_time e \<noteq> None \<and> creation_time e \<noteq> None"
  shows "comprehension get_total_waiting_time es = Inr (map sum_of_waits es)"
  using assms by (induction es) (auto simp: get_total_waiting_time_eq)

lemma comprehension_processing:
  assumes "\<forall>e \<in> set es. disposal_time e \<noteq> None \<and> creation_time e \<noteq> None"
  shows "comprehension get_total_processing_time es = Inr (map sum_of_services es)"
  using assms by (induction es) (auto simp: get_total_processing_time_eq)

text \<open>Every entity that \<open>next_entity\<close> appends has been given a creation time and a
  name, and it is appended at the end of \<open>entities\<close>.\<close>

lemma next_entity_step_stamps:
  assumes "\<forall>e \<in> set (entities src). creation_time e \<noteq> None \<and> name e \<noteq> None"
  shows "\<forall>e \<in> set (entities (snd (next_entity_step src now time built class_name))).
           creation_time e \<noteq> None \<and> name e \<noteq> None"
  using assms by (auto simp: next_entity_step_def Let_def)

lemma next_entity_step_order:
  "entities (snd (next_entity_step src now time built class_name)) = entities src \<or>
   (\<exists>e. entities (snd (next_entity_step src now time built class_name)) = entities src @ [e] \<and>
        creation_time e = Some (now + time))"
  by (simp add: next_entity_step_def Let_def)

text \<open>
  \<^bold>\<open>C9.\<close> For a source whose disposed entities have a creation time, as every entity
  appended by \<open>next_entity\<close> has, the three aggregators return one value for each entity
  of \<open>entities\<close> with a disposal time, in the order of \<open>entities\<close>: the value of the
  getter on that entity. Entities without a disposal time are left out and raise nothing.
\<close>

theorem aggregator_times:
  assumes "\<forall>e \<in> set (entities src). disposal_time e \<noteq> None \<longrightarrow> creation_time e \<noteq> None"
  shows
    "get_total_times src =
       Inr (map (\<lambda>e. the (disposal_time e) - the (creation_time e))
              (filter (\<lambda>e. disposal_time e \<noteq> None) (entities src))) \<and>
     get_waiting_times src =
       Inr (map sum_of_waits (filter (\<lambda>e. disposal_time e \<noteq> None) (entities src))) \<and>
     get_processing_times src =
       Inr (map sum_of_services (filter (\<lambda>e. disposal_time e \<noteq> None) (entities src))) \<and>
     map_sum id length (get_total_times src) =
       Inr (length (filter (\<lambda>e. disposal_time e \<noteq> None) (entities src))) \<and>
     map_sum id length (get_waiting_times src) =
       Inr (length (filter (\<lambda>e. disposal_time e \<noteq> None) (entities src))) \<and>
     map_sum id length (get_processing_times src) =
       Inr (length (filter (\<lambda>e. disposal_time e \<noteq> None) (entities src)))"
proof -
  have eq: "get_disposed_entities src = filter (\<lambda>e. disposal_time e \<noteq> None) (entities src)"
    by (simp add: get_disposed_entities_def is_disposed_def [abs_def])
  have "\<forall>e \<in> set (get_disposed_entities src).
          disposal_time e \<noteq> None \<and> creation_time e \<noteq> None"
    using assms by (simp add: eq)
  then show ?thesis
    unfolding get_total_times_def get_waiting_times_def get_processing_times_def
    by (simp add: comprehension_total comprehension_waiting comprehension_processing eq)
qed

theorem aggregator_times_witness:
  "length (entities shop) = 3 \<and>
   length (filter (\<lambda>e. disposal_time e \<noteq> None) (entities shop)) = 2 \<and>
   get_total_times shop = Inr [5, 1] \<and>
   get_waiting_times shop = Inr [2, 0] \<and>
   get_processing_times shop = Inr [3, 0]"
  using aggregator_times [of shop]
  by (simp add: shop_def served_customer_def waiting_customer_def assign_visit_def customer_def
        fresh_entity_def sum_of_waits_def sum_of_services_def impl_of_update impl_of_empty)

end
